theory Spec2Isabelle
  imports
    Complex_Main
    "HOL-Library.Char_ord"
    "HOL-Library.List_Lexorder"
    "HOL-Library.Log_Nat"
    "HOL-Library.Multiset"
begin

section \<open>Data model\<close>

text \<open>
  A label is what the \<^verbatim>\<open>label\<close> column of a pandas DataFrame holds at run time: a Python
  \<^verbatim>\<open>int\<close> or a Python \<^verbatim>\<open>str\<close>. Equality between the two kinds is Python's: \<^verbatim>\<open>5 == "5"\<close> is
  false, which is the structural equality of the datatype. Null labels are not modelled.
\<close>

datatype label = is_LInt: LInt (the_int: int) | is_LStr: LStr (the_str: string)

text \<open>One ticket row: the columns \<^verbatim>\<open>id\<close>, \<^verbatim>\<open>text\<close> and \<^verbatim>\<open>label\<close> selected by the query.\<close>

record ticket =
  ticket_id :: int
  ticket_text :: string
  label :: label

text \<open>A DataFrame is the list of its rows, in row order; the index is not modelled.\<close>

type_synonym dataframe = "ticket list"

datatype error = ValueError | TypeError | IndexError | SplitError

section \<open>Python and pandas primitives\<close>

text \<open>
  Python's \<^verbatim>\<open><=\<close> between two labels of the same kind: numeric on ints, lexicographic by
  code point on strings. Between an int and a str Python raises \<^verbatim>\<open>TypeError\<close>; every
  function below that orders labels checks the kinds first, so the last equation is
  never consulted by the model.
\<close>

fun label_le :: "label \<Rightarrow> label \<Rightarrow> bool" where
  "label_le (LInt a) (LInt b) = (a \<le> b)"
| "label_le (LStr a) (LStr b) = (a \<le> b)"
| "label_le _ _ = False"

text \<open>
  \<^verbatim>\<open>list.sort()\<close> and \<^verbatim>\<open>DataFrame.sort_values\<close> on the label found by \<open>k\<close>: ascending,
  \<^verbatim>\<open>TypeError\<close> as soon as an int has to be compared with a str.
\<close>

definition py_sort_key :: "('a \<Rightarrow> label) \<Rightarrow> 'a list \<Rightarrow> error + 'a list" where
  "py_sort_key k xs =
     (if list_all (\<lambda>x. is_LInt (k x)) xs then Inr (sort_key (\<lambda>x. the_int (k x)) xs)
      else if list_all (\<lambda>x. is_LStr (k x)) xs then Inr (sort_key (\<lambda>x. the_str (k x)) xs)
      else Inl TypeError)"

text \<open>The labels of a column are all ints or all strs.\<close>

definition homogeneous :: "label list \<Rightarrow> bool" where
  "homogeneous ls = (list_all is_LInt ls \<or> list_all is_LStr ls)"

text \<open>\<^verbatim>\<open>Series.unique\<close>: the distinct values in order of first appearance.\<close>

definition unique :: "'a list \<Rightarrow> 'a list" where
  "unique xs = rev (remdups (rev xs))"

text \<open>
  \<^verbatim>\<open>Series.value_counts()\<close>: one entry per distinct value with its number of occurrences,
  most frequent first. The order among equal counts is not relied upon by the callers,
  which sort by label afterwards.
\<close>

definition value_counts :: "label list \<Rightarrow> (label \<times> nat) list" where
  "value_counts xs =
     sort_key (\<lambda>(l, c). - int c) (map (\<lambda>l. (l, count_list xs l)) (unique xs))"

subsection \<open>Double precision\<close>

text \<open>
  A Python \<^verbatim>\<open>float\<close>, which is a numpy \<^verbatim>\<open>float64\<close>: an IEEE 754 binary64 number. A finite one
  is \<open>m * 2 ^ e\<close> for a mantissa \<open>m\<close> and an exponent \<open>e\<close>; the arithmetic below produces
  the standard representation, with \<open>2 ^ 52 \<le> \<bar>m\<bar> < 2 ^ 53\<close> and \<open>- 1074 \<le> e \<le> 971\<close> for a
  normal number and \<open>\<bar>m\<bar> < 2 ^ 52\<close>, \<open>e = - 1074\<close> for a subnormal one or zero. The sign of
  zero is not modelled.
\<close>

datatype float64 = Finite (mantissa: int) (exponent: int) | PosInf | NegInf | NaN

text \<open>The rational number that a finite float is.\<close>

definition float_val :: "float64 \<Rightarrow> rat" where
  "float_val x = of_int (mantissa x) * 2 powi exponent x"

text \<open>\<^verbatim>\<open>x < y\<close> on floats: false as soon as one side is NaN.\<close>

fun float_less :: "float64 \<Rightarrow> float64 \<Rightarrow> bool" where
  "float_less (Finite m1 e1) (Finite m2 e2) =
     (m1 * 2 ^ nat (e1 - min e1 e2) < m2 * 2 ^ nat (e2 - min e1 e2))"
| "float_less (Finite m e) PosInf = True"
| "float_less NegInf (Finite m e) = True"
| "float_less NegInf PosInf = True"
| "float_less _ _ = False"

fun float_neg :: "float64 \<Rightarrow> float64" where
  "float_neg (Finite m e) = Finite (- m) e"
| "float_neg PosInf = NegInf"
| "float_neg NegInf = PosInf"
| "float_neg NaN = NaN"

text \<open>The integer nearest to \<open>n / d\<close> for \<open>d > 0\<close>, a tie going to the even neighbour.\<close>

definition div_half_even :: "int \<Rightarrow> int \<Rightarrow> int" where
  "div_half_even n d =
     (let q = n div d; r = n mod d
      in if 2 * r < d then q else if d < 2 * r then q + 1 else if even q then q else q + 1)"

text \<open>
  The float nearest to \<open>a / b\<close> for \<open>a > 0\<close> and \<open>b > 0\<close>, in the rounding mode of every
  operation here, round to nearest with ties to even. \<open>e\<close> is the binary exponent of the
  quotient, \<open>2 ^ e \<le> a / b < 2 ^ (e + 1)\<close>, and \<open>s\<close> the exponent of its last mantissa bit,
  which does not go below that of the subnormal numbers; \<open>m\<close> is the quotient rounded to a
  multiple of \<open>2 ^ s\<close>. A mantissa that rounds up to \<open>2 ^ 53\<close> moves to the next exponent, and
  a result of \<open>2 ^ 1024\<close> or more is infinite.
\<close>

definition round_ratio :: "int \<Rightarrow> int \<Rightarrow> float64" where
  "round_ratio a b =
     (let k = bitlen a - bitlen b;
          e = (if (if 0 \<le> k then b * 2 ^ nat k \<le> a else b \<le> a * 2 ^ nat (- k)) then k else k - 1);
          s = max (e - 52) (- 1074);
          m = (if 0 \<le> s then div_half_even a (b * 2 ^ nat s)
               else div_half_even (a * 2 ^ nat (- s)) b)
      in if m = 2 ^ 53 then (if 971 < s + 1 then PosInf else Finite (2 ^ 52) (s + 1))
         else if 971 < s then PosInf else Finite m s)"

text \<open>
  The float nearest to a rational number. This is what \<^verbatim>\<open>float("0.033")\<close> is for the decimal
  numeral 0.033.
\<close>

definition float64_of_rat :: "rat \<Rightarrow> float64" where
  "float64_of_rat q =
     (let (a, b) = quotient_of q
      in if a = 0 then Finite 0 (- 1074)
         else if 0 < a then round_ratio a b
         else float_neg (round_ratio (- a) b))"

text \<open>The conversion of an \<^verbatim>\<open>int64\<close> count to \<^verbatim>\<open>float64\<close>; it is exact up to \<open>2 ^ 53\<close>.\<close>

definition float64_of_nat :: "nat \<Rightarrow> float64" where
  "float64_of_nat n = (if n = 0 then Finite 0 (- 1074) else round_ratio (int n) 1)"

text \<open>
  \<^verbatim>\<open>x / y\<close> on \<^verbatim>\<open>float64\<close> values as numpy computes it: the quotient of two finite numbers
  is rounded once; a division by zero gives an infinity or NaN and does not raise.
\<close>

fun float_div :: "float64 \<Rightarrow> float64 \<Rightarrow> float64" where
  "float_div (Finite m1 e1) (Finite m2 e2) =
     (if m2 = 0 then (if m1 = 0 then NaN else if 0 < m1 then PosInf else NegInf)
      else if m1 = 0 then Finite 0 (- 1074)
      else let r = (if e2 \<le> e1 then round_ratio (\<bar>m1\<bar> * 2 ^ nat (e1 - e2)) \<bar>m2\<bar>
                    else round_ratio \<bar>m1\<bar> (\<bar>m2\<bar> * 2 ^ nat (e2 - e1)))
           in if (0 < m1) = (0 < m2) then r else float_neg r)"
| "float_div (Finite m e) PosInf = Finite 0 (- 1074)"
| "float_div (Finite m e) NegInf = Finite 0 (- 1074)"
| "float_div PosInf (Finite m e) = (if 0 \<le> m then PosInf else NegInf)"
| "float_div NegInf (Finite m e) = (if 0 \<le> m then NegInf else PosInf)"
| "float_div _ _ = NaN"

text \<open>
  \<^verbatim>\<open>Series.value_counts(normalize=True)\<close>: each count divided by the sum of the counts, which
  is the number of rows. The counts are \<^verbatim>\<open>int64\<close> values; numpy converts both operands to
  \<^verbatim>\<open>float64\<close> and divides there.
\<close>

definition value_counts_normalize :: "label list \<Rightarrow> (label \<times> float64) list" where
  "value_counts_normalize xs =
     map (\<lambda>(l, c). (l, float_div (float64_of_nat c) (float64_of_nat (length xs))))
       (value_counts xs)"

subsection \<open>\<^verbatim>\<open>int(x)\<close>\<close>

text \<open>
  A string is a Python \<^verbatim>\<open>str\<close> of code points below 256. The white space that \<^verbatim>\<open>int\<close> skips
  at both ends of such a string: tab, line feed, vertical tab, form feed, carriage return
  and space, and the two code points U+0085 and U+00A0. The separators U+001C to U+001F,
  which \<^verbatim>\<open>str.strip\<close> removes, are not among them: \<^verbatim>\<open>int("\x1c5")\<close> raises.
\<close>

definition is_space :: "char \<Rightarrow> bool" where
  "is_space c = (c \<in> set [CHR 0x09, CHR 0x0A, CHR 0x0B, CHR 0x0C, CHR 0x0D, CHR 0x20,
                           CHR 0x85, CHR 0xA0])"

definition is_digit :: "char \<Rightarrow> bool" where
  "is_digit c = (c \<in> set ''0123456789'')"

definition digit_value :: "char \<Rightarrow> nat" where
  "digit_value c = of_char c - 48"

definition strip :: "string \<Rightarrow> string" where
  "strip s = rev (dropWhile is_space (rev (dropWhile is_space s)))"

text \<open>
  The digits of a decimal literal, where single underscores may separate digits:
  \<^verbatim>\<open>digit (["_"] digit)*\<close>.
\<close>

fun digits_value :: "string \<Rightarrow> nat \<Rightarrow> nat option" where
  "digits_value [] acc = None"
| "digits_value [c] acc = (if is_digit c then Some (10 * acc + digit_value c) else None)"
| "digits_value (c # d # cs) acc =
     (if is_digit c then
        (if d = CHR ''_'' then digits_value cs (10 * acc + digit_value c)
         else digits_value (d # cs) (10 * acc + digit_value c))
      else None)"

text \<open>
  The largest number of digits that \<^verbatim>\<open>int\<close> converts, \<^verbatim>\<open>sys.int_info.default_max_str_digits\<close>
  of Python 3.11 and later (the program needs 3.11 for \<^verbatim>\<open>datetime.UTC\<close>). The sign, the
  underscores and the white space do not count; leading zeros do.
\<close>

definition int_max_str_digits :: nat where
  "int_max_str_digits = 4300"

text \<open>
  \<^verbatim>\<open>int(s)\<close>: surrounding white space, one optional sign, then the digits. \<open>None\<close> is
  \<^verbatim>\<open>ValueError\<close>, raised for a string that is not such a literal and for a literal of more
  than 4300 digits.
\<close>

definition int_of_string :: "string \<Rightarrow> int option" where
  "int_of_string s =
     (case strip s of
        [] \<Rightarrow> None
      | c # cs \<Rightarrow>
          (let digits = (if c = CHR ''-'' \<or> c = CHR ''+'' then cs else c # cs)
           in if int_max_str_digits < length (filter is_digit digits) then None
              else if c = CHR ''-'' then map_option (\<lambda>n. - int n) (digits_value digits 0)
              else map_option int (digits_value digits 0)))"

fun py_int :: "label \<Rightarrow> error + int" where
  "py_int (LInt n) = Inr n"
| "py_int (LStr s) = (case int_of_string s of None \<Rightarrow> Inl ValueError | Some n \<Rightarrow> Inr n)"

section \<open>\<^verbatim>\<open>src/dataset.py\<close>\<close>

text \<open>\<^verbatim>\<open>filter\<close>: \<^verbatim>\<open>df[df["label"].isin(labels)]\<close>.\<close>

definition filter_df :: "dataframe \<Rightarrow> label list \<Rightarrow> dataframe" where
  "filter_df df labels = filter (\<lambda>r. label r \<in> set labels) df"

text \<open>
  \<^verbatim>\<open>find_threshold\<close>: the labels whose normalised count is below the threshold, a \<^verbatim>\<open>float\<close>,
  sorted.
\<close>

definition find_threshold :: "dataframe \<Rightarrow> float64 \<Rightarrow> error + label list" where
  "find_threshold df threshold =
     (let label_counts = value_counts_normalize (map label df);
          low_volume_labels = filter (\<lambda>(l, f). float_less f threshold) label_counts;
          values = map fst low_volume_labels
      in py_sort_key id values)"

text \<open>
  \<^verbatim>\<open>update_label\<close>: \<^verbatim>\<open>substitute_label\<close> applied to every row's label, in row order; the
  first \<^verbatim>\<open>int(x)\<close> that raises ends the call.
\<close>

definition substitute_label :: "label list \<Rightarrow> int \<Rightarrow> label \<Rightarrow> error + int" where
  "substitute_label old_labels new_label x =
     (if x \<in> set old_labels then Inr new_label else py_int x)"

fun apply_label :: "(label \<Rightarrow> error + int) \<Rightarrow> dataframe \<Rightarrow> error + dataframe" where
  "apply_label f [] = Inr []"
| "apply_label f (r # rs) =
     (case f (label r) of
        Inl e \<Rightarrow> Inl e
      | Inr v \<Rightarrow>
          (case apply_label f rs of
             Inl e \<Rightarrow> Inl e
           | Inr rs' \<Rightarrow> Inr (r\<lparr>label := LInt v\<rparr> # rs')))"

definition update_label :: "dataframe \<Rightarrow> label list \<Rightarrow> int \<Rightarrow> error + dataframe" where
  "update_label df old_labels new_label = apply_label (substitute_label old_labels new_label) df"

text \<open>
  \<^verbatim>\<open>split\<close>: nothing but the call of scikit-learn's \<^verbatim>\<open>train_test_split\<close>, here the
  parameter \<open>train_test_split\<close>, with \<^verbatim>\<open>stratify=df["label"]\<close> and \<^verbatim>\<open>random_state=42\<close>.
\<close>

definition split_df ::
  "(dataframe \<Rightarrow> rat \<Rightarrow> error + dataframe \<times> dataframe) \<Rightarrow> dataframe \<Rightarrow> rat
     \<Rightarrow> error + dataframe \<times> dataframe" where
  "split_df train_test_split df test_size = train_test_split df test_size"

section \<open>\<^verbatim>\<open>src/utils.py\<close>\<close>

text \<open>
  \<^verbatim>\<open>count_labels\<close>: the value counts as a table of (Label, Count) rows, sorted by label.
\<close>

definition count_labels :: "dataframe \<Rightarrow> error + (label \<times> nat) list" where
  "count_labels df =
     (let counts = value_counts (map label df)
      in py_sort_key fst counts)"

text \<open>
  Datetimes are microseconds since the epoch, in UTC. \<^verbatim>\<open>datetime.strptime\<close> is a
  collaborator: it is given the string \<^verbatim>\<open>f"{batch_id}0000Z"\<close> and returns \<open>None\<close> where Python
  raises \<^verbatim>\<open>ValueError\<close>. The range limits of \<^verbatim>\<open>datetime\<close> and \<^verbatim>\<open>timedelta\<close> are not modelled.
\<close>

definition timedelta_days :: "int \<Rightarrow> int" where
  "timedelta_days n = n * 86400000000"

definition get_end_datetime :: "(string \<Rightarrow> int option) \<Rightarrow> string \<Rightarrow> error + int" where
  "get_end_datetime strptime batch_id =
     (case strptime (batch_id @ ''0000Z'') of
        None \<Rightarrow> Inl ValueError
      | Some batch_datetime \<Rightarrow>
          (let d = batch_datetime - timedelta_days 1
           in Inr (d - d mod 86400000000 + 86399999999)))"

definition get_start_datetime :: "(string \<Rightarrow> int option) \<Rightarrow> string \<Rightarrow> int \<Rightarrow> error + int" where
  "get_start_datetime strptime batch_id offset =
     (case strptime (batch_id @ ''0000Z'') of
        None \<Rightarrow> Inl ValueError
      | Some batch_datetime \<Rightarrow> Inr (batch_datetime - timedelta_days offset))"

section \<open>\<^verbatim>\<open>prepare.py\<close>\<close>

definition TEST_SPLIT :: rat where
  "TEST_SPLIT = 1 / 10"

definition LOW_VOLUME_MIN_COUNT :: nat where
  "LOW_VOLUME_MIN_COUNT = 10"

text \<open>
  The settings read from the environment when the module is loaded, after their conversion
  by \<^verbatim>\<open>int\<close> and \<^verbatim>\<open>float\<close>.
\<close>

record config =
  LOW_VOLUME_FALLBACK_LABEL :: int
  LOW_VOLUME_PERIOD :: int
  LOW_VOLUME_THRESHOLD :: float64
  TRAINING_PERIOD :: int

text \<open>
  What \<^verbatim>\<open>main\<close> calls outside this repository's pure code: the clock parser, the secret
  store, the database (through \<^verbatim>\<open>tickets.get_tickets\<close>), scikit-learn's
  \<^verbatim>\<open>train_test_split\<close> (with \<^verbatim>\<open>stratify=df["label"]\<close> and \<^verbatim>\<open>random_state=42\<close>) and the
  object store. Each either returns or raises.
\<close>

record collaborators =
  strptime :: "string \<Rightarrow> int option"
  load_secret :: "error + string"
  db_client :: "string \<Rightarrow> error + unit"
  get_tickets :: "int \<Rightarrow> int \<Rightarrow> error + dataframe"
  train_test_split :: "dataframe \<Rightarrow> rat \<Rightarrow> error + dataframe \<times> dataframe"
  write_to_s3_json :: "string \<Rightarrow> dataframe \<Rightarrow> error + unit"

text \<open>The calls made to the collaborators, in order.\<close>

datatype event =
    LoadSecret
  | DbConnect string
  | GetTickets int int
  | TrainTestSplit dataframe rat
  | PutObject string dataframe

text \<open>The \<^verbatim>\<open>return\<close> statement at which \<^verbatim>\<open>main\<close> ends.\<close>

datatype exit_point =
    NoTicketData
  | SkippedLowVolume
  | NoLowVolumeData
  | LowVolumeSaved

text \<open>\<^verbatim>\<open>str.isdigit\<close> on a string of ASCII characters.\<close>

definition isdigit :: "string \<Rightarrow> bool" where
  "isdigit s = (s \<noteq> [] \<and> list_all is_digit s)"

text \<open>
  \<^verbatim>\<open>int(label_counts.loc[label_counts["Label"] == label]["Count"].iloc[0])\<close>: the count in
  the first row of the table whose label equals the given one.
\<close>

definition count_of :: "(label \<times> nat) list \<Rightarrow> label \<Rightarrow> error + nat" where
  "count_of label_counts l =
     (case filter (\<lambda>(l', c). l' = l) label_counts of
        [] \<Rightarrow> Inl IndexError
      | (l', c) # _ \<Rightarrow> Inr c)"

text \<open>The loop of lines 69 to 75, with \<^verbatim>\<open>large_enough\<close> as the accumulator.\<close>

fun large_enough_loop :: "(label \<times> nat) list \<Rightarrow> label list \<Rightarrow> nat \<Rightarrow> error + nat" where
  "large_enough_loop label_counts [] large_enough = Inr large_enough"
| "large_enough_loop label_counts (l # ls) large_enough =
     (case count_of label_counts l of
        Inl e \<Rightarrow> Inl e
      | Inr c \<Rightarrow>
          large_enough_loop label_counts ls
            (if c \<ge> LOW_VOLUME_MIN_COUNT then large_enough + 1 else large_enough))"

text \<open>
  Line 149, \<^verbatim>\<open>low_vol_df[low_vol_df["label"] >= 10]\<close>: the rows whose label value is at
  least 10. Comparing a str label with the int 10 raises \<^verbatim>\<open>TypeError\<close>.
\<close>

definition label_ge_10 :: "dataframe \<Rightarrow> error + dataframe" where
  "label_ge_10 df =
     (if list_all (\<lambda>r. is_LInt (label r)) df
      then Inr (filter (\<lambda>r. the_int (label r) \<ge> 10) df)
      else Inl TypeError)"

text \<open>
  The object keys of lines 107, 108, 161 and 162, which are four instances of one f-string:
  \<^verbatim>\<open>f"training/gata-general/{batch_id}/train/data.json"\<close> and its three siblings.
\<close>

datatype dataset = General | LowVol

datatype partition = Train | Test

definition data_path :: "dataset \<Rightarrow> string \<Rightarrow> partition \<Rightarrow> string" where
  "data_path d batch_id p =
     ''training/'' @ (case d of General \<Rightarrow> ''gata-general'' | LowVol \<Rightarrow> ''gata-low-vol'')
       @ ''/'' @ batch_id @ ''/''
       @ (case p of Train \<Rightarrow> ''train'' | Test \<Rightarrow> ''test'') @ ''/data.json''"

text \<open>
  A run of \<^verbatim>\<open>main\<close> takes the calls made so far and gives the value computed or the
  exception raised, with the calls made by then. \<open>returns\<close> is a value, \<open>step\<close> a
  computation of this program that may raise, \<open>call\<close> a call to a collaborator, recorded
  before its outcome is known, and \<open>and_then\<close> sequencing: an exception ends the run.
\<close>

type_synonym 'a run = "event list \<Rightarrow> (error + 'a) \<times> event list"

definition returns :: "'a \<Rightarrow> 'a run" where
  "returns x tr = (Inr x, tr)"

definition step :: "error + 'a \<Rightarrow> 'a run" where
  "step r tr = (r, tr)"

definition call :: "event \<Rightarrow> error + 'a \<Rightarrow> 'a run" where
  "call ev r tr = (r, tr @ [ev])"

definition and_then :: "'a run \<Rightarrow> ('a \<Rightarrow> 'b run) \<Rightarrow> 'b run" where
  "and_then m f tr =
     (case m tr of
        (Inl e, tr') \<Rightarrow> (Inl e, tr')
      | (Inr x, tr') \<Rightarrow> f x tr')"

text \<open>
  \<^verbatim>\<open>main\<close>, lines 120 to 170: the low volume dataset. \<open>general_df\<close> is the variable of
  that name as it stands after line 94. The calls to \<^verbatim>\<open>count_labels\<close> whose result is only
  logged are kept, since they can raise.
\<close>

definition main_low_vol ::
  "collaborators \<Rightarrow> config \<Rightarrow> string \<Rightarrow> int \<Rightarrow> dataframe \<Rightarrow> label list \<Rightarrow> exit_point run" where
  "main_low_vol env cfg batch_id start general_df low_volume_labels =
     and_then (step (count_labels general_df)) (\<lambda>_.
     let low_vol_df = filter_df general_df low_volume_labels;
         low_vol_start = start - timedelta_days (LOW_VOLUME_PERIOD cfg - TRAINING_PERIOD cfg);
         low_vol_end = start
     in
     and_then (call (GetTickets low_vol_start low_vol_end)
                    (get_tickets env low_vol_start low_vol_end)) (\<lambda>history.
     let low_vol_df = low_vol_df @ history
     in
     if low_vol_df = [] then returns NoLowVolumeData
     else
     and_then (step (count_labels low_vol_df)) (\<lambda>_.
     and_then (step (label_ge_10 low_vol_df)) (\<lambda>low_vol_df.
     and_then (step (count_labels low_vol_df)) (\<lambda>_.
     and_then (call (TrainTestSplit low_vol_df TEST_SPLIT)
                    (split_df (train_test_split env) low_vol_df TEST_SPLIT))
              (\<lambda>(low_vol_train_df, low_vol_test_df).
     and_then (step (count_labels low_vol_train_df)) (\<lambda>_.
     and_then (step (count_labels low_vol_test_df)) (\<lambda>_.
     let train_path = data_path LowVol batch_id Train;
         test_path = data_path LowVol batch_id Test
     in
     and_then (call (PutObject train_path low_vol_train_df)
                    (write_to_s3_json env train_path low_vol_train_df)) (\<lambda>_.
     and_then (call (PutObject test_path low_vol_test_df)
                    (write_to_s3_json env test_path low_vol_test_df)) (\<lambda>_.
     returns LowVolumeSaved))))))))))"

text \<open>
  \<^verbatim>\<open>main\<close>, lines 67 to 118: the general dataset, for a non-empty \<open>general_df\<close>; then the
  low volume dataset unless line 116 returns.
\<close>

definition main_general ::
  "collaborators \<Rightarrow> config \<Rightarrow> string \<Rightarrow> int \<Rightarrow> dataframe \<Rightarrow> exit_point run" where
  "main_general env cfg batch_id start general_df =
     and_then (step (count_labels general_df)) (\<lambda>label_counts.
     and_then (step (find_threshold general_df (LOW_VOLUME_THRESHOLD cfg))) (\<lambda>low_volume_labels.
     and_then (step (large_enough_loop label_counts low_volume_labels 0)) (\<lambda>large_enough.
     let create_low_volume = (large_enough \<ge> 2);
         low_volume_label_id =
           (if \<not> create_low_volume then LOW_VOLUME_FALLBACK_LABEL cfg else 0)
     in
     and_then (step (count_labels general_df)) (\<lambda>_.
     and_then (step (update_label general_df low_volume_labels low_volume_label_id)) (\<lambda>general_df.
     and_then (call (TrainTestSplit general_df TEST_SPLIT)
                    (split_df (train_test_split env) general_df TEST_SPLIT))
              (\<lambda>(general_train_df, general_test_df).
     and_then (step (count_labels general_train_df)) (\<lambda>_.
     and_then (step (count_labels general_test_df)) (\<lambda>_.
     let train_path = data_path General batch_id Train;
         test_path = data_path General batch_id Test
     in
     and_then (call (PutObject train_path general_train_df)
                    (write_to_s3_json env train_path general_train_df)) (\<lambda>_.
     and_then (call (PutObject test_path general_test_df)
                    (write_to_s3_json env test_path general_test_df)) (\<lambda>_.
     if \<not> create_low_volume then returns SkippedLowVolume
     else main_low_vol env cfg batch_id start general_df low_volume_labels))))))))))"

text \<open>
  \<^verbatim>\<open>main\<close>: the exception raised or the return reached, and the calls made to the
  collaborators.
\<close>

definition main_run :: "collaborators \<Rightarrow> config \<Rightarrow> string \<Rightarrow> exit_point run" where
  "main_run env cfg batch_id =
     (if length batch_id \<noteq> 10 \<or> \<not> isdigit batch_id then step (Inl ValueError)
      else
      and_then (step (get_start_datetime (strptime env) batch_id (TRAINING_PERIOD cfg))) (\<lambda>start.
      and_then (step (get_end_datetime (strptime env) batch_id)) (\<lambda>end_dt.
      and_then (call LoadSecret (load_secret env)) (\<lambda>dbname.
      and_then (call (DbConnect dbname) (db_client env dbname)) (\<lambda>db.
      and_then (call (GetTickets start end_dt) (get_tickets env start end_dt)) (\<lambda>general_df.
      if general_df = [] then returns NoTicketData
      else main_general env cfg batch_id start general_df))))))"

definition main :: "collaborators \<Rightarrow> config \<Rightarrow> string \<Rightarrow> (error + exit_point) \<times> event list" where
  "main env cfg batch_id = main_run env cfg batch_id []"

section \<open>The specification's notions\<close>

text \<open>
  The relative frequency of the label \<open>l\<close> in \<open>df\<close>, the specification's measure for the
  Threshold Classifier: the number of rows that carry \<open>l\<close> divided by the number of rows,
  in double precision.
\<close>

definition relative_frequency :: "dataframe \<Rightarrow> label \<Rightarrow> float64" where
  "relative_frequency df l =
     float_div (float64_of_nat (count_list (map label df) l)) (float64_of_nat (length df))"

text \<open>A label that is a non-empty string of digits.\<close>

definition digit_string :: "label \<Rightarrow> bool" where
  "digit_string x = (is_LStr x \<and> the_str x \<noteq> [] \<and> list_all is_digit (the_str x))"

text \<open>
  A label that is an integer or a non-empty string of digits, of no more digits than \<^verbatim>\<open>int\<close>
  converts.
\<close>

definition integer_valued :: "label \<Rightarrow> bool" where
  "integer_valued x = (is_LInt x \<or> digit_string x \<and> length (the_str x) \<le> 4300)"

text \<open>
  The specification's viability test for the secondary dataset: at least two labels are
  low volume in \<open>df\<close> (relative frequency below \<open>t\<close>) and have an absolute count of at
  least 10.
\<close>

definition viable :: "dataframe \<Rightarrow> float64 \<Rightarrow> bool" where
  "viable df t =
     (2 \<le> length (filter
        (\<lambda>l. float_less (relative_frequency df l) t \<and> 10 \<le> count_list (map label df) l)
        (remdups (map label df))))"


text \<open>The datasets handed to \<^verbatim>\<open>train_test_split\<close> during a run, in order.\<close>

fun split_inputs :: "event list \<Rightarrow> dataframe list" where
  "split_inputs [] = []"
| "split_inputs (TrainTestSplit df f # es) = df # split_inputs es"
| "split_inputs (e # es) = split_inputs es"

text \<open>The number of calls to \<^verbatim>\<open>tickets.get_tickets\<close> during a run.\<close>

fun fetches :: "event list \<Rightarrow> nat" where
  "fetches [] = 0"
| "fetches (GetTickets s e # es) = Suc (fetches es)"
| "fetches (e # es) = fetches es"

text \<open>The objects written to the object store during a run, in order: key and dataset.\<close>

fun puts :: "event list \<Rightarrow> (string \<times> dataframe) list" where
  "puts [] = []"
| "puts (PutObject k df # es) = (k, df) # puts es"
| "puts (e # es) = puts es"

section \<open>Concrete inputs\<close>

text \<open>\<open>n\<close> rows with consecutive ids from \<open>first\<close>, all with the label \<open>l\<close>.\<close>

definition rows :: "int \<Rightarrow> nat \<Rightarrow> label \<Rightarrow> dataframe" where
  "rows first n l =
     map (\<lambda>i. \<lparr>ticket_id = first + int i, ticket_text = ''t'', label = l\<rparr>) [0..<n]"

text \<open>The label column of the fixture of \<^verbatim>\<open>tests/test_dataset.py\<close>: 18 rows, string labels.\<close>

definition fixture_df :: dataframe where
  "fixture_df = rows 0 2 (LStr ''0'') @ rows 2 2 (LStr ''1'') @ rows 4 2 (LStr ''2'')
     @ rows 6 6 (LStr ''3'') @ rows 12 6 (LStr ''4'')"



text \<open>
  A primary window with integer labels: ten rows each of the labels 1 and 2 and thirty of
  the label 3. With the threshold 0.4 the labels 1 and 2 are low volume and each has ten
  records.
\<close>

definition primary_window :: dataframe where
  "primary_window = rows 0 10 (LInt 1) @ rows 10 10 (LInt 2) @ rows 20 30 (LInt 3)"

text \<open>
  A smaller primary window: the labels 1 and 2 are low volume with the threshold 0.4, but
  each has only two records.
\<close>

definition small_window :: dataframe where
  "small_window = rows 0 2 (LInt 1) @ rows 2 2 (LInt 2) @ rows 4 6 (LInt 3)"

text \<open>An extended-history window: twelve rows of the label 5 and one of the label 50.\<close>

definition history_window :: dataframe where
  "history_window = rows 100 12 (LInt 5) @ rows 112 1 (LInt 50)"

definition example_config :: config where
  "example_config =
     \<lparr>LOW_VOLUME_FALLBACK_LABEL = 99, LOW_VOLUME_PERIOD = 365,
      LOW_VOLUME_THRESHOLD = float64_of_rat (2 / 5), TRAINING_PERIOD = 90\<rparr>"

text \<open>A stand-in splitter: every tenth row by id goes to the test partition.\<close>

definition tenth_split :: "dataframe \<Rightarrow> rat \<Rightarrow> error + dataframe \<times> dataframe" where
  "tenth_split df f =
     (if df = [] then Inl SplitError
      else Inr (filter (\<lambda>r. ticket_id r mod 10 \<noteq> 0) df,
                filter (\<lambda>r. ticket_id r mod 10 = 0) df))"

text \<open>
  Collaborators that all answer: the batch \<^verbatim>\<open>2025010100\<close> parses to 2025-01-01 00:00 UTC,
  the primary window (which starts 90 days earlier) holds \<open>R\<close> and any other window \<open>H\<close>.
\<close>

definition example_env :: "dataframe \<Rightarrow> dataframe \<Rightarrow> collaborators" where
  "example_env R H =
     \<lparr>strptime = (\<lambda>s. Some 1735689600000000),
      load_secret = Inr ''tickets'',
      db_client = (\<lambda>n. Inr ()),
      get_tickets = (\<lambda>s e. if s = 1727913600000000 then Inr R else Inr H),
      train_test_split = tenth_split,
      write_to_s3_json = (\<lambda>k d. Inr ())\<rparr>"

section \<open>Sorting and counting\<close>

lemma set_unique: "set (unique xs) = set xs"
  by (simp add: unique_def)

lemma distinct_unique: "distinct (unique xs)"
  by (simp add: unique_def)

lemma mset_value_counts:
  "mset (value_counts xs) = mset (map (\<lambda>l. (l, count_list xs l)) (unique xs))"
  by (simp add: value_counts_def)

lemma set_value_counts:
  "set (value_counts xs) = (\<lambda>l. (l, count_list xs l)) ` set xs"
  by (simp add: value_counts_def set_unique)

lemma distinct_map_fst_value_counts: "distinct (map fst (value_counts xs))"
proof -
  have "mset (map fst (value_counts xs)) = image_mset fst (mset (value_counts xs))"
    by simp
  also have "\<dots> = mset (unique xs)"
    unfolding mset_value_counts by (simp add: image_mset.compositionality comp_def)
  finally have "mset (map fst (value_counts xs)) = mset (unique xs)" .
  then show ?thesis
    using distinct_unique mset_eq_imp_distinct_iff by blast
qed

lemma sum_counts_value_counts:
  "sum_list (map snd (value_counts xs)) = length xs"
proof -
  have "mset (map snd (value_counts xs)) = image_mset snd (mset (value_counts xs))"
    by simp
  also have "\<dots> = mset (map (count_list xs) (unique xs))"
    unfolding mset_value_counts by (simp add: image_mset.compositionality comp_def)
  finally have "mset (map snd (value_counts xs)) = mset (map (count_list xs) (unique xs))" .
  then have "sum_list (map snd (value_counts xs)) = sum_list (map (count_list xs) (unique xs))"
    by (metis sum_mset_sum_list)
  also have "\<dots> = sum (count_list xs) (set xs)"
    using sum_list_distinct_conv_sum_set [OF distinct_unique, of "count_list xs" xs]
    by (simp add: set_unique)
  also have "\<dots> = length xs"
    by (rule sum_count_set) simp_all
  finally show ?thesis .
qed

lemma py_sort_key_Inr:
  assumes "py_sort_key k xs = Inr ys"
  shows "mset ys = mset xs" and "sorted_wrt label_le (map k ys)"
proof -
  show "mset ys = mset xs"
    using assms by (auto simp: py_sort_key_def split: if_splits)
  show "sorted_wrt label_le (map k ys)"
  proof (cases "list_all (\<lambda>x. is_LInt (k x)) xs")
    case True
    then have ys: "ys = sort_key (\<lambda>x. the_int (k x)) xs"
      using assms by (simp add: py_sort_key_def)
    have s: "sorted (map (\<lambda>x. the_int (k x)) ys)"
      unfolding ys by (rule sorted_sort_key)
    have a: "\<forall>x\<in>set ys. is_LInt (k x)"
      using True unfolding ys by (simp add: list_all_iff)
    have "sorted_wrt (\<lambda>x y. the_int (k x) \<le> the_int (k y)) ys"
      using s by (simp add: sorted_map)
    then have "sorted_wrt (\<lambda>x y. label_le (k x) (k y)) ys"
    proof (rule sorted_wrt_mono_rel [rotated])
      fix x y assume "x \<in> set ys" "y \<in> set ys" "the_int (k x) \<le> the_int (k y)"
      then show "label_le (k x) (k y)"
        using a by (cases "k x"; cases "k y") auto
    qed
    then show ?thesis by (simp add: sorted_wrt_map)
  next
    case False
    then have all: "list_all (\<lambda>x. is_LStr (k x)) xs"
      and ys: "ys = sort_key (\<lambda>x. the_str (k x)) xs"
      using assms by (auto simp: py_sort_key_def split: if_splits)
    have s: "sorted (map (\<lambda>x. the_str (k x)) ys)"
      unfolding ys by (rule sorted_sort_key)
    have a: "\<forall>x\<in>set ys. is_LStr (k x)"
      using all unfolding ys by (simp add: list_all_iff)
    have "sorted_wrt (\<lambda>x y. the_str (k x) \<le> the_str (k y)) ys"
      using s by (simp add: sorted_map)
    then have "sorted_wrt (\<lambda>x y. label_le (k x) (k y)) ys"
    proof (rule sorted_wrt_mono_rel [rotated])
      fix x y assume "x \<in> set ys" "y \<in> set ys" "the_str (k x) \<le> the_str (k y)"
      then show "label_le (k x) (k y)"
        using a by (cases "k x"; cases "k y") auto
    qed
    then show ?thesis by (simp add: sorted_wrt_map)
  qed
qed

lemma py_sort_key_homogeneous:
  "homogeneous (map k xs) \<Longrightarrow> \<exists>ys. py_sort_key k xs = Inr ys"
  by (auto simp: homogeneous_def py_sort_key_def list_all_iff)

lemma py_sort_key_Inl:
  "py_sort_key k xs = Inl e \<Longrightarrow> e = TypeError \<and> \<not> homogeneous (map k xs)"
  by (auto simp: homogeneous_def py_sort_key_def list_all_iff split: if_splits)

section \<open>The threshold classifier and the label statistics\<close>

lemma set_value_counts_normalize:
  "set (value_counts_normalize xs) =
     (\<lambda>l. (l, float_div (float64_of_nat (count_list xs l)) (float64_of_nat (length xs)))) ` set xs"
  by (auto simp: value_counts_normalize_def set_value_counts image_iff)

lemma map_fst_value_counts_normalize:
  "map fst (value_counts_normalize xs) = map fst (value_counts xs)"
  by (simp add: value_counts_normalize_def comp_def case_prod_beta)

lemma find_threshold_Inr:
  assumes "find_threshold R t = Inr ls"
  shows "sorted_wrt label_le ls" and "distinct ls"
    and "set ls = {l \<in> set (map label R). float_less (relative_frequency R l) t}"
proof -
  define vs where
    "vs = map fst (filter (\<lambda>(l, f). float_less f t) (value_counts_normalize (map label R)))"
  have srt: "py_sort_key id vs = Inr ls"
    using assms by (simp add: find_threshold_def vs_def)
  have m: "mset ls = mset vs"
    using py_sort_key_Inr(1) [OF srt] .
  show "sorted_wrt label_le ls"
    using py_sort_key_Inr(2) [OF srt] by simp
  have "distinct vs"
    unfolding vs_def
    by (rule distinct_map_filter)
       (simp add: map_fst_value_counts_normalize distinct_map_fst_value_counts)
  then show "distinct ls"
    using m mset_eq_imp_distinct_iff by blast
  have "set vs = {l \<in> set (map label R). float_less (relative_frequency R l) t}"
    by (fastforce simp: vs_def set_value_counts_normalize relative_frequency_def image_iff)
  then show "set ls = {l \<in> set (map label R). float_less (relative_frequency R l) t}"
    using m mset_eq_setD by blast
qed

lemma homogeneous_subset:
  "homogeneous xs \<Longrightarrow> set ys \<subseteq> set xs \<Longrightarrow> homogeneous ys"
  by (auto simp: homogeneous_def list_all_iff)





lemma count_labels_Inr:
  assumes "count_labels R = Inr tbl"
  shows "sorted_wrt label_le (map fst tbl)" and "distinct (map fst tbl)"
    and "set tbl = (\<lambda>l. (l, count_list (map label R) l)) ` set (map label R)"
    and "sum_list (map snd tbl) = length R"
proof -
  have srt: "py_sort_key fst (value_counts (map label R)) = Inr tbl"
    using assms by (simp add: count_labels_def)
  have m: "mset tbl = mset (value_counts (map label R))"
    using py_sort_key_Inr(1) [OF srt] .
  show "sorted_wrt label_le (map fst tbl)"
    using py_sort_key_Inr(2) [OF srt] .
  have "mset (map fst tbl) = mset (map fst (value_counts (map label R)))"
    using m by (metis mset_map)
  then show "distinct (map fst tbl)"
    using distinct_map_fst_value_counts mset_eq_imp_distinct_iff by blast
  show "set tbl = (\<lambda>l. (l, count_list (map label R) l)) ` set (map label R)"
    using m set_value_counts mset_eq_setD by metis
  have "mset (map snd tbl) = mset (map snd (value_counts (map label R)))"
    using m by (metis mset_map)
  then have "sum_list (map snd tbl) = sum_list (map snd (value_counts (map label R)))"
    by (metis sum_mset_sum_list)
  then show "sum_list (map snd tbl) = length R"
    by (simp add: sum_counts_value_counts)
qed

lemma count_labels_returns:
  assumes "homogeneous (map label R)"
  shows "\<exists>tbl. count_labels R = Inr tbl"
proof -
  have "set (map fst (value_counts (map label R))) \<subseteq> set (map label R)"
    by (auto simp: set_value_counts)
  then have "homogeneous (map fst (value_counts (map label R)))"
    using assms homogeneous_subset by blast
  then show ?thesis
    using py_sort_key_homogeneous by (simp add: count_labels_def)
qed

lemma count_labels_empty: "count_labels [] = Inr []"
  by (simp add: count_labels_def value_counts_def unique_def py_sort_key_def)

text \<open>
  Claim C8. Whenever \<^verbatim>\<open>count_labels(R)\<close> returns, its table has one row per distinct label of
  \<open>R\<close>, each with that label's number of records, the rows are in ascending label order
  and the counts sum to \<^verbatim>\<open>len(R)\<close>. It returns on every record set whose labels are all ints
  or all strs, and on the empty record set it returns the empty table.
\<close>

theorem count_labels_spec:
  "(\<forall>tbl. count_labels R = Inr tbl \<longrightarrow>
      sorted_wrt label_le (map fst tbl) \<and> distinct (map fst tbl) \<and>
      set tbl = (\<lambda>l. (l, count_list (map label R) l)) ` set (map label R) \<and>
      sum_list (map snd tbl) = length R)
   \<and> (homogeneous (map label R) \<longrightarrow> (\<exists>tbl. count_labels R = Inr tbl))
   \<and> count_labels [] = Inr []"
  using count_labels_Inr count_labels_returns count_labels_empty by blast

theorem count_labels_spec_witness:
  "homogeneous (map label fixture_df)
   \<and> count_labels fixture_df =
       Inr [(LStr ''0'', 2), (LStr ''1'', 2), (LStr ''2'', 2), (LStr ''3'', 6), (LStr ''4'', 6)]
   \<and> sorted_wrt label_le [LStr ''0'', LStr ''1'', LStr ''2'', LStr ''3'', LStr ''4'']
   \<and> sum_list [2, 2, 2, 6, 6] = length fixture_df"
proof -
  have e: "count_labels fixture_df =
      Inr [(LStr ''0'', 2), (LStr ''1'', 2), (LStr ''2'', 2), (LStr ''3'', 6), (LStr ''4'', 6)]"
    by code_simp
  have h: "homogeneous (map label fixture_df)"
    by code_simp
  show ?thesis
    using count_labels_spec [of fixture_df] e h by auto
qed

section \<open>The label remapper\<close>

lemma apply_label_Inr:
  "apply_label f R = Inr R' \<Longrightarrow>
     length R' = length R \<and>
     (\<forall>i<length R. ticket_id (R' ! i) = ticket_id (R ! i) \<and>
                    ticket_text (R' ! i) = ticket_text (R ! i) \<and>
                    f (label (R ! i)) = Inr (the_int (label (R' ! i))) \<and>
                    is_LInt (label (R' ! i)))"
proof (induction R arbitrary: R')
  case Nil
  then show ?case by simp
next
  case (Cons r rs)
  from Cons.prems obtain v rs' where
    v: "f (label r) = Inr v" and rs': "apply_label f rs = Inr rs'"
    and R': "R' = r\<lparr>label := LInt v\<rparr> # rs'"
    by (auto split: sum.splits)
  note IH = Cons.IH [OF rs']
  show ?case
    unfolding R' using v IH by (auto simp: nth_Cons split: nat.splits)
qed

lemma apply_label_isl:
  "isl (apply_label f R) \<longleftrightarrow> (\<exists>r\<in>set R. isl (f (label r)))"
  by (induction R) (auto split: sum.splits)

lemma substitute_label_isl:
  "isl (substitute_label L v x) \<longleftrightarrow> x \<notin> set L \<and> isl (py_int x)"
  by (simp add: substitute_label_def)

lemma py_int_LInt_iff: "is_LInt x \<Longrightarrow> py_int x = Inr (the_int x)"
  by (cases x) auto

text \<open>
  Claim C7. When \<^verbatim>\<open>update_label(R, L, v)\<close> returns, the result has as many records as \<open>R\<close>,
  with ids and texts unchanged; every label is now an int; a record whose label was a
  member of \<open>L\<close> has the label \<open>v\<close>; and any other record's label has the integer value
  of its original label.
\<close>

theorem update_label_spec:
  assumes "update_label R L v = Inr R'"
  shows "length R' = length R \<and>
     (\<forall>i<length R.
        ticket_id (R' ! i) = ticket_id (R ! i) \<and>
        ticket_text (R' ! i) = ticket_text (R ! i) \<and>
        is_LInt (label (R' ! i)) \<and>
        (label (R ! i) \<in> set L \<longrightarrow> label (R' ! i) = LInt v) \<and>
        (label (R ! i) \<notin> set L \<longrightarrow> py_int (label (R' ! i)) = py_int (label (R ! i))))"
proof -
  note a = apply_label_Inr [OF assms [unfolded update_label_def]]
  show ?thesis
  proof (intro conjI allI impI)
    show "length R' = length R" using a by simp
  next
    fix i assume i: "i < length R"
    show "ticket_id (R' ! i) = ticket_id (R ! i)" using a i by simp
    show "ticket_text (R' ! i) = ticket_text (R ! i)" using a i by simp
    show int: "is_LInt (label (R' ! i))" using a i by simp
    have s: "substitute_label L v (label (R ! i)) = Inr (the_int (label (R' ! i)))"
      using a i by simp
    { assume "label (R ! i) \<in> set L"
      with s have "the_int (label (R' ! i)) = v" by (simp add: substitute_label_def)
      with int show "label (R' ! i) = LInt v" by (cases "label (R' ! i)") auto }
    { assume "label (R ! i) \<notin> set L"
      with s have "py_int (label (R ! i)) = Inr (the_int (label (R' ! i)))"
        by (simp add: substitute_label_def)
      then show "py_int (label (R' ! i)) = py_int (label (R ! i))"
        using py_int_LInt_iff [OF int] by simp }
  qed
qed

theorem update_label_spec_witness:
  "update_label fixture_df [LStr ''0'', LStr ''1''] 99 =
     Inr (rows 0 4 (LInt 99) @ rows 4 2 (LInt 2) @ rows 6 6 (LInt 3) @ rows 12 6 (LInt 4))
   \<and> length (rows 0 4 (LInt 99) @ rows 4 2 (LInt 2) @ rows 6 6 (LInt 3) @ rows 12 6 (LInt 4)) =
       length fixture_df
   \<and> label ((rows 0 4 (LInt 99) @ rows 4 2 (LInt 2) @ rows 6 6 (LInt 3) @ rows 12 6 (LInt 4)) ! 0) =
       LInt 99
   \<and> py_int (label ((rows 0 4 (LInt 99) @ rows 4 2 (LInt 2) @ rows 6 6 (LInt 3)
         @ rows 12 6 (LInt 4)) ! 4)) = py_int (label (fixture_df ! 4))"
proof -
  let ?R' = "rows 0 4 (LInt 99) @ rows 4 2 (LInt 2) @ rows 6 6 (LInt 3) @ rows 12 6 (LInt 4)"
  have e: "update_label fixture_df [LStr ''0'', LStr ''1''] 99 = Inr ?R'"
    by code_simp
  note s = update_label_spec [OF e]
  have i0: "0 < length fixture_df" and i4: "4 < length fixture_df"
    by code_simp+
  have m0: "label (fixture_df ! 0) \<in> set [LStr ''0'', LStr ''1'']"
    by code_simp
  have m4: "label (fixture_df ! 4) \<notin> set [LStr ''0'', LStr ''1'']"
    by code_simp
  have "label (?R' ! 0) = LInt 99"
    using s i0 m0 by blast
  moreover have "py_int (label (?R' ! 4)) = py_int (label (fixture_df ! 4))"
    using s i4 m4 by blast
  ultimately show ?thesis
    using e s by blast
qed

lemma digits_value_digits:
  "s \<noteq> [] \<Longrightarrow> list_all is_digit s \<Longrightarrow> \<exists>n. digits_value s a = Some n"
proof (induction s a rule: digits_value.induct)
  case (1 a)
  then show ?case by simp
next
  case (2 c a)
  then show ?case by simp
next
  case (3 c d cs a)
  have "d \<noteq> CHR ''_''" using 3 by (auto simp: is_digit_def)
  then show ?case using 3 by simp
qed

lemma digit_not_space: "is_digit c \<Longrightarrow> \<not> is_space c"
  by (auto simp: is_digit_def is_space_def)

lemma strip_digits: "list_all is_digit s \<Longrightarrow> strip s = s"
proof -
  assume a: "list_all is_digit s"
  then have 1: "dropWhile is_space s = s"
    by (cases s) (auto simp: digit_not_space)
  from a have "list_all is_digit (rev s)" by (simp add: list_all_iff)
  then have 2: "dropWhile is_space (rev s) = rev s"
    by (cases "rev s") (auto simp: digit_not_space)
  show ?thesis by (simp add: strip_def 1 2)
qed

lemma filter_digits: "list_all is_digit s \<Longrightarrow> filter is_digit s = s"
  by (simp add: list_all_iff)

lemma int_of_string_digits:
  assumes "s \<noteq> []" "list_all is_digit s" "length s \<le> 4300"
  shows "\<exists>n. int_of_string s = Some n"
proof -
  obtain c cs where s: "s = c # cs" using assms(1) by (cases s) auto
  then have c: "is_digit c" using assms(2) by simp
  then have ne: "c \<noteq> CHR ''-''" "c \<noteq> CHR ''+''" by (auto simp: is_digit_def)
  obtain n where n: "digits_value (c # cs) 0 = Some n"
    using digits_value_digits [OF assms(1,2), of 0] s by auto
  have st: "strip (c # cs) = c # cs"
    using strip_digits [OF assms(2)] s by simp
  have "length (filter is_digit (c # cs)) \<le> 4300"
    using filter_digits [OF assms(2)] assms(3) s by simp
  then have len: "\<not> int_max_str_digits < length (filter is_digit (c # cs))"
    by (simp add: int_max_str_digits_def)
  show ?thesis
    unfolding int_of_string_def s st using ne n len by (simp del: filter.simps)
qed

lemma int_of_string_too_long:
  assumes "list_all is_digit s" "4300 < length s"
  shows "int_of_string s = None"
proof -
  obtain c cs where s: "s = c # cs" using assms(2) by (cases s) auto
  then have c: "is_digit c" using assms(1) by simp
  then have ne: "c \<noteq> CHR ''-''" "c \<noteq> CHR ''+''" by (auto simp: is_digit_def)
  have st: "strip (c # cs) = c # cs"
    using strip_digits [OF assms(1)] s by simp
  have "4300 < length (filter is_digit (c # cs))"
    using filter_digits [OF assms(1)] assms(2) s by simp
  then have len: "int_max_str_digits < length (filter is_digit (c # cs))"
    by (simp add: int_max_str_digits_def)
  show ?thesis
    unfolding int_of_string_def s st using ne len by (simp del: filter.simps)
qed

lemma py_int_integer_valued: "integer_valued x \<Longrightarrow> \<not> isl (py_int x)"
proof (cases x)
  case (LInt n)
  then show ?thesis by simp
next
  case (LStr t)
  assume "integer_valued x"
  then have "t \<noteq> []" "list_all is_digit t" "length t \<le> 4300"
    using LStr by (simp_all add: integer_valued_def digit_string_def)
  then obtain n where "int_of_string t = Some n"
    using int_of_string_digits by blast
  then show ?thesis using LStr by simp
qed

lemma py_int_too_long:
  "digit_string x \<Longrightarrow> 4300 < length (the_str x) \<Longrightarrow> py_int x = Inl ValueError"
  using int_of_string_too_long by (cases x) (auto simp: digit_string_def)

lemma py_int_Inl: "py_int x = Inl e \<Longrightarrow> e = ValueError"
  by (cases x) (auto split: option.splits)

lemma apply_label_Inl:
  "apply_label f R = Inl e \<Longrightarrow> \<exists>r\<in>set R. f (label r) = Inl e"
  by (induction R) (auto split: sum.splits)

lemma update_label_Inl: "update_label R L v = Inl e \<Longrightarrow> e = ValueError"
proof -
  assume a: "update_label R L v = Inl e"
  obtain r :: ticket where "substitute_label L v (label r) = Inl e"
    using apply_label_Inl [OF a [unfolded update_label_def]] by blast
  then have "py_int (label r) = Inl e"
    by (auto simp: substitute_label_def split: if_splits)
  then show ?thesis by (rule py_int_Inl)
qed

lemma update_label_raises:
  "isl (update_label R L v) \<longleftrightarrow> (\<exists>r\<in>set R. label r \<notin> set L \<and> isl (py_int (label r)))"
  by (auto simp: update_label_def apply_label_isl substitute_label_isl)

text \<open>
  Claim C10, amended. \<^verbatim>\<open>update_label(R, L, v)\<close> raises exactly when some record of \<open>R\<close> has a
  label that is not a member of \<open>L\<close> and on which \<^verbatim>\<open>int\<close> raises, and what it raises is
  \<^verbatim>\<open>ValueError\<close>. If every label outside \<open>L\<close> is an int or a non-empty string of at most
  4300 digits, it does not raise; a string of more than 4300 digits outside \<open>L\<close> makes it
  raise.
\<close>

theorem update_label_raises_iff:
  "(isl (update_label R L v) \<longleftrightarrow> (\<exists>r\<in>set R. label r \<notin> set L \<and> isl (py_int (label r))))
   \<and> (isl (update_label R L v) \<longrightarrow> update_label R L v = Inl ValueError)
   \<and> ((\<forall>r\<in>set R. label r \<notin> set L \<longrightarrow> integer_valued (label r)) \<longrightarrow>
        \<not> isl (update_label R L v))
   \<and> ((\<exists>r\<in>set R. label r \<notin> set L \<and> digit_string (label r) \<and> 4300 < length (the_str (label r)))
        \<longrightarrow> update_label R L v = Inl ValueError)"
proof -
  have a: "isl (update_label R L v) \<longrightarrow> update_label R L v = Inl ValueError"
    using update_label_Inl by (cases "update_label R L v") auto
  have b: "(\<forall>r\<in>set R. label r \<notin> set L \<longrightarrow> integer_valued (label r)) \<longrightarrow>
        \<not> isl (update_label R L v)"
    unfolding update_label_raises using py_int_integer_valued by blast
  have c: "(\<exists>r\<in>set R. label r \<notin> set L \<and> digit_string (label r) \<and> 4300 < length (the_str (label r)))
        \<longrightarrow> isl (update_label R L v)"
    unfolding update_label_raises using py_int_too_long by fastforce
  show ?thesis
    using update_label_raises a b c by blast
qed

theorem update_label_raises_iff_witness:
  "update_label (rows 0 1 (LStr ''n/a'')) [LStr ''0''] 99 = Inl ValueError
   \<and> \<not> isl (update_label fixture_df [LStr ''0'', LStr ''1''] 99)
   \<and> update_label (rows 0 1 (LStr (replicate 4301 CHR ''0''))) [LInt 0] 99 = Inl ValueError"
proof -
  have bad: "\<exists>r\<in>set (rows 0 1 (LStr ''n/a'')).
      label r \<notin> set [LStr ''0''] \<and> isl (py_int (label r))"
    by code_simp
  have good: "\<forall>r\<in>set fixture_df.
      label r \<notin> set [LStr ''0'', LStr ''1''] \<longrightarrow> integer_valued (label r)"
    by code_simp
  have long: "\<exists>r\<in>set (rows 0 1 (LStr (replicate 4301 CHR ''0''))).
      label r \<notin> set [LInt 0] \<and> digit_string (label r) \<and> 4300 < length (the_str (label r))"
    by (simp add: rows_def digit_string_def list_all_iff is_digit_def)
  show ?thesis
    using update_label_raises_iff [of "rows 0 1 (LStr ''n/a'')" "[LStr ''0'']" 99]
      update_label_raises_iff [of fixture_df "[LStr ''0'', LStr ''1'']" 99]
      update_label_raises_iff [of "rows 0 1 (LStr (replicate 4301 CHR ''0''))" "[LInt 0]" 99]
      bad good long
    by blast
qed

text \<open>
  Claim C10 as stated fails: a label of 4301 digits is a string of digits, it is not a
  member of \<open>L\<close>, and \<^verbatim>\<open>update_label\<close> raises \<^verbatim>\<open>ValueError\<close> on it.
\<close>

theorem update_label_digit_string_counterexample:
  "digit_string (LStr (replicate 4301 CHR ''7''))
   \<and> LStr (replicate 4301 CHR ''7'') \<notin> set [LInt 1]
   \<and> update_label (rows 0 1 (LStr (replicate 4301 CHR ''7''))) [LInt 1] 0 = Inl ValueError"
proof -
  have d: "digit_string (LStr (replicate 4301 CHR ''7''))"
    by (simp add: digit_string_def list_all_iff is_digit_def)
  then have "py_int (LStr (replicate 4301 CHR ''7'')) = Inl ValueError"
    by (rule py_int_too_long) simp
  then have "update_label (rows 0 1 (LStr (replicate 4301 CHR ''7''))) [LInt 1] 0 = Inl ValueError"
    by (simp add: update_label_def substitute_label_def rows_def del: py_int.simps)
  with d show ?thesis by simp
qed

section \<open>Runs of \<^verbatim>\<open>main\<close>\<close>

lemma and_then_step:
  "and_then (step r) f tr = (case r of Inl e \<Rightarrow> (Inl e, tr) | Inr x \<Rightarrow> f x tr)"
  by (simp add: and_then_def step_def split: sum.splits)

lemma and_then_call:
  "and_then (call ev r) f tr =
     (case r of Inl e \<Rightarrow> (Inl e, tr @ [ev]) | Inr x \<Rightarrow> f x (tr @ [ev]))"
  by (simp add: and_then_def call_def split: sum.splits)

lemma fetches_append: "fetches (xs @ ys) = fetches xs + fetches ys"
  by (induction xs rule: fetches.induct) simp_all

lemma split_inputs_append: "split_inputs (xs @ ys) = split_inputs xs @ split_inputs ys"
  by (induction xs rule: split_inputs.induct) simp_all

lemma puts_append: "puts (xs @ ys) = puts xs @ puts ys"
  by (induction xs rule: puts.induct) simp_all

lemma count_of_count_labels:
  assumes "count_labels R = Inr lc" and "l \<in> set (map label R)"
  shows "count_of lc l = Inr (count_list (map label R) l)"
proof -
  have s: "set lc = (\<lambda>l. (l, count_list (map label R) l)) ` set (map label R)"
    using count_labels_Inr(3) [OF assms(1)] .
  let ?f = "filter (\<lambda>(l', c). l' = l) lc"
  have "(l, count_list (map label R) l) \<in> set ?f"
    using s assms(2) by auto
  then obtain a as where f: "?f = a # as"
    by (cases ?f) auto
  then have "a \<in> set ?f" by simp
  then have "a = (l, count_list (map label R) l)"
    using s by auto
  then show ?thesis
    using f by (simp add: count_of_def)
qed

lemma large_enough_loop_counts:
  "(\<And>l. l \<in> set L \<Longrightarrow> count_of lc l = Inr (cnt l)) \<Longrightarrow>
   large_enough_loop lc L n = Inr (n + length (filter (\<lambda>l. 10 \<le> cnt l) L))"
  by (induction L arbitrary: n) (simp_all add: LOW_VOLUME_MIN_COUNT_def)

lemma length_filter_low_volume:
  assumes "find_threshold R t = Inr L"
  shows "(2 \<le> length (filter (\<lambda>l. 10 \<le> count_list (map label R) l) L)) = viable R t"
proof -
  let ?P = "\<lambda>l. 10 \<le> count_list (map label R) l"
  let ?Q = "\<lambda>l. float_less (relative_frequency R l) t \<and> ?P l"
  have d: "distinct L"
    and s: "set L = {l \<in> set (map label R). float_less (relative_frequency R l) t}"
    using find_threshold_Inr [OF assms] by auto
  have "set (filter ?P L) = set (filter ?Q (remdups (map label R)))"
    using s by auto
  moreover have "distinct (filter ?P L)" "distinct (filter ?Q (remdups (map label R)))"
    using d by simp_all
  ultimately have "length (filter ?P L) = length (filter ?Q (remdups (map label R)))"
    by (metis distinct_card)
  then show ?thesis
    by (simp add: viable_def)
qed

lemma large_enough_decides:
  assumes "count_labels R = Inr lc" and "find_threshold R t = Inr L"
  shows "\<exists>n. large_enough_loop lc L 0 = Inr n \<and> (2 \<le> n) = viable R t"
proof -
  have "set L \<subseteq> set (map label R)"
    using find_threshold_Inr(3) [OF assms(2)] by auto
  then have "\<And>l. l \<in> set L \<Longrightarrow> count_of lc l = Inr (count_list (map label R) l)"
    using count_of_count_labels [OF assms(1)] by blast
  then have "large_enough_loop lc L 0 =
      Inr (0 + length (filter (\<lambda>l. 10 \<le> count_list (map label R) l) L))"
    by (rule large_enough_loop_counts)
  then show ?thesis
    using length_filter_low_volume [OF assms(2)] by simp
qed

lemma main_general_decided:
  assumes lc: "count_labels R = Inr lc"
    and L: "find_threshold R (LOW_VOLUME_THRESHOLD cfg) = Inr L"
  shows "main_general env cfg b start R tr =
     and_then (step (update_label R L
        (if viable R (LOW_VOLUME_THRESHOLD cfg) then 0 else LOW_VOLUME_FALLBACK_LABEL cfg)))
       (\<lambda>general_df.
     and_then (call (TrainTestSplit general_df TEST_SPLIT)
                    (train_test_split env general_df TEST_SPLIT)) (\<lambda>(train_df, test_df).
     and_then (step (count_labels train_df)) (\<lambda>_.
     and_then (step (count_labels test_df)) (\<lambda>_.
     and_then (call (PutObject (data_path General b Train) train_df)
                    (write_to_s3_json env (data_path General b Train) train_df)) (\<lambda>_.
     and_then (call (PutObject (data_path General b Test) test_df)
                    (write_to_s3_json env (data_path General b Test) test_df)) (\<lambda>_.
     if \<not> viable R (LOW_VOLUME_THRESHOLD cfg) then returns SkippedLowVolume
     else main_low_vol env cfg b start general_df L)))))) tr"
proof -
  obtain n where n: "large_enough_loop lc L 0 = Inr n"
    and v: "(2 \<le> n) = viable R (LOW_VOLUME_THRESHOLD cfg)"
    using large_enough_decides [OF lc L] by blast
  show ?thesis
    unfolding main_general_def
    by (simp add: and_then_step lc L n v Let_def split_df_def)
qed

lemma main_low_vol_trace:
  assumes "main_low_vol env cfg b start g L tr = (res, tr')"
  shows "\<exists>ys. tr' = tr @ ys \<and> fetches ys \<le> 1 \<and> (\<not> isl res \<longrightarrow> fetches ys = 1)
          \<and> length (split_inputs ys) \<le> 1
          \<and> (isl res
              \<or> res = Inr NoLowVolumeData \<and> puts ys = []
              \<or> res = Inr LowVolumeSaved \<and>
                map fst (puts ys) = [data_path LowVol b Train, data_path LowVol b Test])"
  using assms
  unfolding main_low_vol_def
  by (auto simp: and_then_step and_then_call returns_def Let_def split_df_def
      split: sum.splits prod.splits if_splits)

lemma main_general_early:
  assumes "isl (count_labels R) \<or> isl (find_threshold R (LOW_VOLUME_THRESHOLD cfg))"
  shows "\<exists>e. main_general env cfg b start R tr = (Inl e, tr)"
  using assms unfolding main_general_def
  by (auto simp: and_then_step split: sum.splits)

lemma main_general_run:
  assumes run: "main_general env cfg b start R tr = (res, tr')"
  shows "\<exists>ys. tr' = tr @ ys
     \<and> fetches ys \<le> 1
     \<and> (fetches ys = 1 \<longrightarrow> viable R (LOW_VOLUME_THRESHOLD cfg))
     \<and> (\<not> isl res \<longrightarrow> (fetches ys = 1) = viable R (LOW_VOLUME_THRESHOLD cfg))
     \<and> (res = Inr SkippedLowVolume) = (\<not> isl res \<and> \<not> viable R (LOW_VOLUME_THRESHOLD cfg))
     \<and> (\<not> viable R (LOW_VOLUME_THRESHOLD cfg) \<longrightarrow>
          length (split_inputs ys) \<le> 1 \<and>
          set (map fst (puts ys)) \<subseteq> {data_path General b Train, data_path General b Test})
     \<and> (\<not> isl res \<longrightarrow> split_inputs ys \<noteq> [])
     \<and> (\<not> isl res \<and> viable R (LOW_VOLUME_THRESHOLD cfg) \<longrightarrow>
          res = Inr NoLowVolumeData \<and>
            map fst (puts ys) = [data_path General b Train, data_path General b Test] \<or>
          res = Inr LowVolumeSaved \<and>
            map fst (puts ys) =
              [data_path General b Train, data_path General b Test,
               data_path LowVol b Train, data_path LowVol b Test])
     \<and> (split_inputs ys \<noteq> [] \<longrightarrow>
          (\<exists>L. find_threshold R (LOW_VOLUME_THRESHOLD cfg) = Inr L \<and>
               update_label R L
                 (if viable R (LOW_VOLUME_THRESHOLD cfg) then 0
                  else LOW_VOLUME_FALLBACK_LABEL cfg) = Inr (hd (split_inputs ys))))"
proof (cases "isl (count_labels R) \<or> isl (find_threshold R (LOW_VOLUME_THRESHOLD cfg))")
  case True
  then obtain e where "main_general env cfg b start R tr = (Inl e, tr)"
    using main_general_early by blast
  then have "res = Inl e" "tr' = tr" using run by simp_all
  then show ?thesis by simp
next
  case False
  then obtain lc L where lc: "count_labels R = Inr lc"
    and L: "find_threshold R (LOW_VOLUME_THRESHOLD cfg) = Inr L"
    by (metis sum.collapse(2))
  show ?thesis
    using run
    unfolding main_general_decided [OF lc L]
    by (auto simp: and_then_step and_then_call returns_def L fetches_append
        split_inputs_append puts_append
        split: sum.splits prod.splits if_splits dest!: main_low_vol_trace)
qed

lemma update_label_member:
  assumes "update_label R L v = Inr R'" and "i < length R" and "label (R ! i) \<in> set L"
  shows "label (R' ! i) = LInt v"
proof -
  note a = apply_label_Inr [OF assms(1) [unfolded update_label_def]]
  have "substitute_label L v (label (R ! i)) = Inr (the_int (label (R' ! i)))"
    and int: "is_LInt (label (R' ! i))"
    using a assms(2) by simp_all
  then have "the_int (label (R' ! i)) = v"
    using assms(3) by (simp add: substitute_label_def)
  with int show ?thesis by (cases "label (R' ! i)") auto
qed

lemma main_reaches_general:
  assumes "length b = 10" and "isdigit b"
    and "get_start_datetime (strptime env) b (TRAINING_PERIOD cfg) = Inr start"
    and "get_end_datetime (strptime env) b = Inr end_dt"
    and "load_secret env = Inr dbname" and "db_client env dbname = Inr u"
    and "get_tickets env start end_dt = Inr R" and "R \<noteq> []"
  shows "main env cfg b =
     main_general env cfg b start R [LoadSecret, DbConnect dbname, GetTickets start end_dt]"
  using assms by (simp add: main_def main_run_def and_then_step and_then_call)

lemma example_run_premises:
  "length ''2025010100'' = 10" "isdigit ''2025010100''"
  "get_start_datetime (strptime (example_env R H)) ''2025010100'' (TRAINING_PERIOD example_config)
     = Inr 1727913600000000"
  "get_end_datetime (strptime (example_env R H)) ''2025010100'' = Inr 1735689599999999"
  "load_secret (example_env R H) = Inr ''tickets''"
  "db_client (example_env R H) ''tickets'' = Inr ()"
  "get_tickets (example_env R H) 1727913600000000 1735689599999999 = Inr R"
  by (simp_all add: isdigit_def is_digit_def example_env_def example_config_def
      get_start_datetime_def get_end_datetime_def timedelta_days_def)








section \<open>Input validation\<close>

text \<open>
  Claim C9. A batch id that is not exactly 10 characters long, or that is not made of digits
  only, makes \<^verbatim>\<open>main\<close> raise \<^verbatim>\<open>ValueError\<close> before any collaborator is called: the list of
  calls is empty, so no secret is retrieved, no database connection is opened and no query
  is sent. (Batch ids are strings of ASCII characters here.)
\<close>

theorem main_rejects_malformed_batch_id:
  "length batch_id \<noteq> 10 \<or> \<not> isdigit batch_id \<Longrightarrow> main env cfg batch_id = (Inl ValueError, [])"
  by (auto simp: main_def main_run_def step_def)

theorem main_rejects_malformed_batch_id_witness:
  "main (example_env primary_window history_window) example_config ''0'' = (Inl ValueError, [])
   \<and> main (example_env primary_window history_window) example_config ''20250101xx''
       = (Inl ValueError, [])"
proof -
  have "length ''0'' \<noteq> 10 \<or> \<not> isdigit ''0''"
    by simp
  moreover have "length ''20250101xx'' \<noteq> 10 \<or> \<not> isdigit ''20250101xx''"
    by (simp add: isdigit_def is_digit_def)
  ultimately show ?thesis
    using main_rejects_malformed_batch_id by blast
qed

section \<open>The secondary dataset decision\<close>




section \<open>The remap target\<close>

text \<open>
  Claim C3, amended. In every run of \<^verbatim>\<open>main\<close> whose primary fetch returns a non-empty record
  set \<open>R\<close>, the dataset handed to the first \<^verbatim>\<open>train_test_split\<close> is
  \<^verbatim>\<open>update_label(R, low_volume_labels, target)\<close>, where the target is the configured
  fallback label id when \<open>R\<close> is not viable and the constant 0 when it is; every row whose
  label was low volume carries that target. A run that ends without an exception has made
  that call.
\<close>

theorem remap_target_by_viability:
  assumes "length b = 10" and "isdigit b"
    and "get_start_datetime (strptime env) b (TRAINING_PERIOD cfg) = Inr start"
    and "get_end_datetime (strptime env) b = Inr end_dt"
    and "load_secret env = Inr dbname" and "db_client env dbname = Inr u"
    and "get_tickets env start end_dt = Inr R" and "R \<noteq> []"
    and "main env cfg b = (res, tr)"
  shows "(\<not> isl res \<longrightarrow> split_inputs tr \<noteq> [])
     \<and> (split_inputs tr \<noteq> [] \<longrightarrow>
          (\<exists>L. find_threshold R (LOW_VOLUME_THRESHOLD cfg) = Inr L \<and>
               update_label R L
                 (if viable R (LOW_VOLUME_THRESHOLD cfg) then 0
                  else LOW_VOLUME_FALLBACK_LABEL cfg) = Inr (hd (split_inputs tr)) \<and>
               (\<forall>i<length R. label (R ! i) \<in> set L \<longrightarrow>
                  label (hd (split_inputs tr) ! i) =
                    LInt (if viable R (LOW_VOLUME_THRESHOLD cfg) then 0
                          else LOW_VOLUME_FALLBACK_LABEL cfg))))"
proof -
  let ?tr0 = "[LoadSecret, DbConnect dbname, GetTickets start end_dt]"
  let ?target = "if viable R (LOW_VOLUME_THRESHOLD cfg) then 0 else LOW_VOLUME_FALLBACK_LABEL cfg"
  have "main_general env cfg b start R ?tr0 = (res, tr)"
    using main_reaches_general [OF assms(1-8)] assms(9) by simp
  from main_general_run [OF this] obtain ys where
    tr: "tr = ?tr0 @ ys"
    and ne: "\<not> isl res \<longrightarrow> split_inputs ys \<noteq> []"
    and sp: "split_inputs ys \<noteq> [] \<longrightarrow>
          (\<exists>L. find_threshold R (LOW_VOLUME_THRESHOLD cfg) = Inr L \<and>
               update_label R L ?target = Inr (hd (split_inputs ys)))"
    by (elim exE conjE) (rule that)
  have a: "split_inputs tr = split_inputs ys"
    by (simp add: tr)
  have p1: "\<not> isl res \<longrightarrow> split_inputs tr \<noteq> []"
    unfolding a by (rule ne)
  have p2: "split_inputs tr \<noteq> [] \<longrightarrow>
          (\<exists>L. find_threshold R (LOW_VOLUME_THRESHOLD cfg) = Inr L \<and>
               update_label R L ?target = Inr (hd (split_inputs tr)) \<and>
               (\<forall>i<length R. label (R ! i) \<in> set L \<longrightarrow>
                  label (hd (split_inputs tr) ! i) = LInt ?target))"
  proof
    assume "split_inputs tr \<noteq> []"
    then obtain L where L: "find_threshold R (LOW_VOLUME_THRESHOLD cfg) = Inr L"
      and u: "update_label R L ?target = Inr (hd (split_inputs tr))"
      using sp unfolding a by blast
    have "\<forall>i<length R. label (R ! i) \<in> set L \<longrightarrow>
        label (hd (split_inputs tr) ! i) = LInt ?target"
      using update_label_member [OF u] by blast
    with L u show "\<exists>L. find_threshold R (LOW_VOLUME_THRESHOLD cfg) = Inr L \<and>
               update_label R L ?target = Inr (hd (split_inputs tr)) \<and>
               (\<forall>i<length R. label (R ! i) \<in> set L \<longrightarrow>
                  label (hd (split_inputs tr) ! i) = LInt ?target)"
      by blast
  qed
  show ?thesis
    by (rule conjI [OF p1 p2])
qed

theorem remap_target_by_viability_witness:
  "split_inputs (snd (main (example_env small_window history_window) example_config
       ''2025010100'')) \<noteq> []
   \<and> update_label small_window [LInt 1, LInt 2] 99 =
       Inr (hd (split_inputs (snd (main (example_env small_window history_window)
         example_config ''2025010100''))))
   \<and> label (hd (split_inputs (snd (main (example_env small_window history_window)
         example_config ''2025010100''))) ! 0) = LInt 99"
proof -
  let ?small = "main (example_env small_window history_window) example_config ''2025010100''"
  have nv: "\<not> viable small_window (LOW_VOLUME_THRESHOLD example_config)"
    by code_simp
  have L: "find_threshold small_window (LOW_VOLUME_THRESHOLD example_config) = Inr [LInt 1, LInt 2]"
    by code_simp
  have fb: "LOW_VOLUME_FALLBACK_LABEL example_config = 99"
    by code_simp
  have ok: "\<not> isl (fst ?small)"
    by code_simp
  have ne: "small_window \<noteq> []" and i0: "0 < length small_window"
    and m0: "label (small_window ! 0) \<in> set [LInt 1, LInt 2]"
    by code_simp+
  have r: "?small = (fst ?small, snd ?small)"
    by simp
  note g = remap_target_by_viability [OF example_run_premises ne r]
  have s: "split_inputs (snd ?small) \<noteq> []"
    using g ok by blast
  with g obtain L' where
    "find_threshold small_window (LOW_VOLUME_THRESHOLD example_config) = Inr L'"
    and u: "update_label small_window L'
        (if viable small_window (LOW_VOLUME_THRESHOLD example_config) then 0
         else LOW_VOLUME_FALLBACK_LABEL example_config) = Inr (hd (split_inputs (snd ?small)))"
    and a: "\<forall>i<length small_window. label (small_window ! i) \<in> set L' \<longrightarrow>
        label (hd (split_inputs (snd ?small)) ! i) =
          LInt (if viable small_window (LOW_VOLUME_THRESHOLD example_config) then 0
                else LOW_VOLUME_FALLBACK_LABEL example_config)"
    by blast
  then have L': "L' = [LInt 1, LInt 2]"
    using L by simp
  have "label (hd (split_inputs (snd ?small)) ! 0) = LInt 99"
    using a [unfolded L', rule_format, OF i0 m0] nv fb by simp
  then show ?thesis
    using s u nv fb unfolding L' by simp
qed

text \<open>
  Claim C3 as stated fails: with the fallback label id 99 and a viable primary window whose
  low-volume labels are 1 and 2, the rows of these labels reach the splitter with the
  label 0, not 99.
\<close>

theorem remap_target_counterexample:
  "viable primary_window (LOW_VOLUME_THRESHOLD example_config)
   \<and> LOW_VOLUME_FALLBACK_LABEL example_config = 99
   \<and> find_threshold primary_window (LOW_VOLUME_THRESHOLD example_config) = Inr [LInt 1, LInt 2]
   \<and> map label (hd (split_inputs (snd (main (example_env primary_window history_window)
        example_config ''2025010100'')))) = replicate 20 (LInt 0) @ replicate 30 (LInt 3)"
  by code_simp

section \<open>The low-volume filters\<close>

text \<open>
  Claim C1 at a failing input. The merged low-volume set of this run is the history window:
  twelve rows of the label 5 and one row of the label 50. Line 149 keeps the rows whose
  label value is at least 10, so the secondary split receives the single row of the label
  50 (one record) and none of the twelve rows of the label 5.
\<close>

theorem sparse_label_filter_compares_label_value:
  "count_list (map label history_window) (LInt 5) = 12
   \<and> count_list (map label history_window) (LInt 50) = 1
   \<and> label_ge_10 history_window = Inr (rows 112 1 (LInt 50))
   \<and> split_inputs (snd (main (example_env primary_window history_window) example_config
        ''2025010100'')) ! 1 = rows 112 1 (LInt 50)"
  by code_simp

text \<open>
  Claim C2 at a failing input. The primary window has twenty rows of the low-volume labels
  1 and 2. Line 125 filters \<^verbatim>\<open>general_df\<close> as line 94 left it, with these labels already
  replaced by 0, so the filtered copy is empty; with an empty extended history the run
  ends at the empty-merge return of line 141.
\<close>

theorem low_volume_filter_reads_remapped_labels:
  "find_threshold primary_window (LOW_VOLUME_THRESHOLD example_config) = Inr [LInt 1, LInt 2]
   \<and> length (filter_df primary_window [LInt 1, LInt 2]) = 20
   \<and> update_label primary_window [LInt 1, LInt 2] 0 = Inr (rows 0 20 (LInt 0) @ rows 20 30 (LInt 3))
   \<and> filter_df (rows 0 20 (LInt 0) @ rows 20 30 (LInt 3)) [LInt 1, LInt 2] = []
   \<and> fst (main (example_env primary_window []) example_config ''2025010100'')
       = Inr NoLowVolumeData"
  by code_simp

end
